theory Spec2Isabelle
  imports Main
begin

section \<open>Python values used by the queue and retry code\<close>

text \<open>
  Strings are byte strings (\<^typ>\<open>string\<close>); the case mapping and the whitespace
  class below are the ASCII part of Python's \<open>str.lower\<close> and \<open>str.strip\<close>.
  Python integers are \<^typ>\<open>int\<close>. An exception is represented by its message
  \<open>str(e)\<close>, which is all the code ever inspects.
\<close>

definition lower_char :: "char \<Rightarrow> char" where
  "lower_char c =
     (if (65::nat) \<le> of_char c \<and> of_char c \<le> (90::nat)
      then char_of (of_char c + (32::nat)) else c)"

definition lower :: "string \<Rightarrow> string" where
  "lower s = map lower_char s"

text \<open>\<open>s.startswith(p)\<close> and \<open>p in s\<close> on strings.\<close>

fun startswith :: "string \<Rightarrow> string \<Rightarrow> bool" where
  "startswith s [] = True"
| "startswith [] (p # ps) = False"
| "startswith (c # cs) (p # ps) = (c = p \<and> startswith cs ps)"

fun str_in :: "string \<Rightarrow> string \<Rightarrow> bool" where
  "str_in p [] = (p = [])"
| "str_in p (c # cs) = (startswith (c # cs) p \<or> str_in p cs)"

definition is_space :: "char \<Rightarrow> bool" where
  "is_space c =
     (let n = (of_char c :: nat) in (9 \<le> n \<and> n \<le> 13) \<or> (28 \<le> n \<and> n \<le> 32))"

definition strip :: "string \<Rightarrow> string" where
  "strip s = rev (dropWhile is_space (rev (dropWhile is_space s)))"

text \<open>\<open>str(n)\<close> for an integer.\<close>

definition digit_char :: "nat \<Rightarrow> char" where
  "digit_char d = char_of (48 + d)"

function str_nat :: "nat \<Rightarrow> string" where
  "str_nat n = (if n < 10 then [digit_char n] else str_nat (n div 10) @ [digit_char (n mod 10)])"
  by pat_completeness auto
termination
  by (relation "measure id") auto

definition str_int :: "int \<Rightarrow> string" where
  "str_int i = (if i < 0 then CHR ''-'' # str_nat (nat (- i)) else str_nat (nat i))"

text \<open>\<open>xs[i]\<close> with Python's negative indices; \<open>None\<close> stands for IndexError.\<close>

definition py_index :: "'a list \<Rightarrow> int \<Rightarrow> 'a option" where
  "py_index xs i =
     (let n = int (length xs); j = (if i < 0 then n + i else i)
      in if 0 \<le> j \<and> j < n then Some (xs ! nat j) else None)"

text \<open>\<open>range(n)\<close>.\<close>

definition range_py :: "int \<Rightarrow> int list" where
  "range_py n = map int [0..<nat n]"

section \<open>retry\_handler.py: RetryHandler\<close>

record retry_handler =
  max_retries :: int
  retry_delays :: "nat list"
  is_cancelled :: bool

text \<open>
  \<open>__init__(max_retries=3, retry_delays=None)\<close>: a missing or empty schedule is
  replaced by 30 s, 60 s, 180 s (\<open>retry_delays or [30, 60, 180]\<close>).
\<close>

definition RetryHandler :: "int \<Rightarrow> nat list option \<Rightarrow> retry_handler" where
  "RetryHandler m ds =
     \<lparr>max_retries = m,
      retry_delays = (case ds of None \<Rightarrow> [30, 60, 180] | Some d \<Rightarrow> if d = [] then [30, 60, 180] else d),
      is_cancelled = False\<rparr>"

definition create_download_retry_handler :: "int \<Rightarrow> nat list option \<Rightarrow> retry_handler" where
  "create_download_retry_handler m ds =
     RetryHandler m (Some (case ds of None \<Rightarrow> [30, 60, 180] | Some d \<Rightarrow> d))"

definition cancel :: "retry_handler \<Rightarrow> retry_handler" where
  "cancel h = h\<lparr>is_cancelled := True\<rparr>"

definition reset :: "retry_handler \<Rightarrow> retry_handler" where
  "reset h = h\<lparr>is_cancelled := False\<rparr>"

definition retryable_patterns :: "string list" where
  "retryable_patterns =
     [''connection'', ''timeout'', ''network'', ''unreachable'',
      ''temporary failure'', ''service unavailable'', ''bad gateway'',
      ''gateway timeout'', ''connection reset'', ''connection refused'',
      ''dns'', ''resolve'', ''interrupted'', ''broken pipe'',
      ''http error 5'', ''http error 429'',
      ''unable to download'', ''download error'']"

definition non_retryable_patterns :: "string list" where
  "non_retryable_patterns =
     [''video unavailable'', ''private video'', ''video removed'',
      ''copyright'', ''blocked'', ''not found'', ''invalid url'',
      ''unsupported url'', ''age restricted'', ''login required'',
      ''cancelled by user'', ''sign in to confirm you'' @ [CHR 0x27] @ ''re not a bot'']"

text \<open>
  \<open>_is_retryable_error\<close>: the non-retryable patterns are tried first, then the
  retryable ones, and an error that matches nothing is retried.
\<close>

definition is_retryable_error :: "string \<Rightarrow> bool" where
  "is_retryable_error exception =
     (let error_msg = lower exception in
      if list_ex (\<lambda>pattern. str_in pattern error_msg) non_retryable_patterns then False
      else if list_ex (\<lambda>pattern. str_in pattern error_msg) retryable_patterns then True
      else True)"

text \<open>
  The result of a call is a return value or a raised exception. The trace lists, in
  order, what one run of \<open>execute_with_retry\<close> does to the outside: the signals it
  emits, the sleeps, and every invocation of the wrapped callable with its outcome.
\<close>

datatype 'r outcome = Returned 'r | Raised string

datatype retry_event =
    Retry_attempt int int string
  | Retry_success string
  | Retry_failed string
  | Sleep nat
  | Call_returned
  | Call_raised string

text \<open>
  The wrapped callable runs on the world \<^typ>\<open>'w\<close> and either raises (\<open>Inl\<close>, the
  message) or returns. The handler object is threaded through the call as well: the
  controller thread may call \<open>cancel()\<close> on it while the callable (or the sleep before
  it) is in progress, and the loop reads the fields again afterwards.
\<close>

type_synonym ('w, 'r) callable = "retry_handler \<Rightarrow> 'w \<Rightarrow> (string + 'r) \<times> retry_handler \<times> 'w"

definition str_exc :: "string option \<Rightarrow> string" where
  "str_exc last_exception = (case last_exception of None \<Rightarrow> ''None'' | Some e \<Rightarrow> e)"

text \<open>
  The body of the \<open>try\<close> block of one iteration: for a retry, the delay lookup (which
  raises IndexError on an empty schedule), the \<open>retry_attempt\<close> signal and the sleep;
  then the call; then \<open>retry_success\<close> after a successful retry.
\<close>

definition try_body ::
  "('w, 'r) callable \<Rightarrow> int \<Rightarrow> string option \<Rightarrow> retry_handler \<Rightarrow> 'w
     \<Rightarrow> (string + 'r) \<times> retry_handler \<times> 'w \<times> retry_event list" where
  "try_body func attempt last_exception h w =
     (case (if attempt > 0
            then (case py_index (retry_delays h)
                         (min (attempt - 1) (int (length (retry_delays h)) - 1)) of
                    None \<Rightarrow> Inl ''list index out of range''
                  | Some delay \<Rightarrow>
                      Inr [Retry_attempt attempt (max_retries h) (str_exc last_exception),
                           Sleep delay])
            else Inr []) of
        Inl e \<Rightarrow> (Inl e, h, w, [])
      | Inr evs \<Rightarrow>
          (case func h w of
             (Inl e, h', w') \<Rightarrow> (Inl e, h', w', evs @ [Call_raised e])
           | (Inr result, h', w') \<Rightarrow>
               (Inr result, h', w',
                evs @ [Call_returned] @
                (if attempt > 0
                 then [Retry_success (''Download succeeded after '' @ str_int attempt @ '' retry attempts'')]
                 else []))))"

text \<open>
  The \<open>for attempt in range(self.max_retries + 1)\<close> loop, over the attempts still to
  run. Falling out of the loop raises \<open>last_exception\<close> (a TypeError when it is
  still \<open>None\<close>).
\<close>

fun retry_loop ::
  "('w, 'r) callable \<Rightarrow> int list \<Rightarrow> string option \<Rightarrow> retry_handler \<Rightarrow> 'w \<Rightarrow> retry_event list
     \<Rightarrow> 'r outcome \<times> retry_handler \<times> 'w \<times> retry_event list" where
  "retry_loop func [] last_exception h w tr =
     (case last_exception of
        None \<Rightarrow> (Raised ''exceptions must derive from BaseException'', h, w, tr)
      | Some e \<Rightarrow> (Raised e, h, w, tr))"
| "retry_loop func (attempt # rest) last_exception h w tr =
     (if is_cancelled h then (Raised ''Retry cancelled by user'', h, w, tr)
      else
        (case try_body func attempt last_exception h w of
           (Inr result, h', w', evs) \<Rightarrow> (Returned result, h', w', tr @ evs)
         | (Inl e, h', w', evs) \<Rightarrow>
             if \<not> is_retryable_error e then (Raised e, h', w', tr @ evs)
             else if attempt = max_retries h'
             then (Raised e, h', w',
                   tr @ evs @
                   [Retry_failed (''Download failed after '' @ str_int (max_retries h') @
                                  '' retry attempts: '' @ e)])
             else retry_loop func rest (Some e) h' w' (tr @ evs)))"

definition execute_with_retry ::
  "('w, 'r) callable \<Rightarrow> retry_handler \<Rightarrow> 'w \<Rightarrow> 'r outcome \<times> retry_handler \<times> 'w \<times> retry_event list" where
  "execute_with_retry func h w = retry_loop func (range_py (max_retries h + 1)) None h w []"

text \<open>The invocations of the callable in a trace, in order.\<close>

fun is_call :: "retry_event \<Rightarrow> bool" where
  "is_call Call_returned = True"
| "is_call (Call_raised e) = True"
| "is_call ev = False"

definition calls :: "retry_event list \<Rightarrow> retry_event list" where
  "calls tr = filter is_call tr"

section \<open>batchmode.py: BatchModeManager\<close>

text \<open>
  \<open>int(s)\<close> on a string: surrounding whitespace is dropped, one sign is allowed, the
  rest must be decimal digits; \<open>None\<close> stands for ValueError. \<open>last_segment s\<close> is
  \<open>s.split('_')[-1]\<close>.
\<close>

definition is_digit :: "char \<Rightarrow> bool" where
  "is_digit c = ((48::nat) \<le> of_char c \<and> of_char c \<le> (57::nat))"

definition digits_value :: "string \<Rightarrow> nat" where
  "digits_value ds = foldl (\<lambda>a c. 10 * a + (of_char c - 48)) 0 ds"

definition int_of_str :: "string \<Rightarrow> int option" where
  "int_of_str s =
     (let t = strip s;
          sd = (case t of
                  [] \<Rightarrow> (1, [])
                | c # r \<Rightarrow> if c = CHR ''-'' then (- 1, r)
                           else if c = CHR ''+'' then (1, r) else (1, t))
      in if snd sd \<noteq> [] \<and> list_all is_digit (snd sd)
         then Some (fst sd * int (digits_value (snd sd))) else None)"

definition last_segment :: "string \<Rightarrow> string" where
  "last_segment s = rev (takeWhile (\<lambda>c. c \<noteq> CHR ''_'') (rev s))"

text \<open>
  The playlist dictionary built by \<open>PlaylistInfoExtractor.run\<close>, with all of its keys
  present and typed.
\<close>

record playlist_info =
  pl_title :: string
  pl_uploader :: string
  pl_video_count :: int
  pl_url :: string
  pl_id :: string
  pl_entries :: "string list"
  pl_list_id :: string
  pl_is_mix :: bool

record batch_settings =
  resolution :: string
  download_subs :: bool
  download_path :: string
  container_override :: "string option"
  audio_override :: "string option"

text \<open>The dictionary returned by \<open>get_next_batch_item\<close>: the settings plus the URL.\<close>

record batch_item = batch_settings +
  url :: string

record batch_mode_manager =
  is_batch_mode :: bool
  batch_queue :: "string list"
  current_batch_index :: int
  successful_downloads :: int
  failed_downloads :: int
  batch_settings :: batch_settings
  extractor :: "(string \<times> int option) option"
  current_playlist_info :: "playlist_info option"
  playlist_current_index :: int
  playlist_max_items :: "int option"

text \<open>
  The Qt signals of the manager. A method returns the signals it emits, in order; what
  the connected slots of the application do with them is not part of the manager.
\<close>

datatype signal =
    Batch_status_changed bool
  | Playlist_detected playlist_info
  | Playlist_loading string
  | Queue_updated
  | Queue_limit_reached int
  | Queue_limit_warning int int

datatype py_error = IndexError | AttributeError

definition default_settings :: batch_settings where
  "default_settings =
     \<lparr>resolution = ''720p'', download_subs = False, download_path = '''',
      container_override = None, audio_override = None\<rparr>"

definition BatchModeManager :: batch_mode_manager where
  "BatchModeManager =
     \<lparr>is_batch_mode = False, batch_queue = [], current_batch_index = 0,
      successful_downloads = 0, failed_downloads = 0, batch_settings = default_settings,
      extractor = None, current_playlist_info = None, playlist_current_index = 0,
      playlist_max_items = None\<rparr>"

text \<open>\<open>x or None\<close> for an optional string.\<close>

definition or_none :: "string option \<Rightarrow> string option" where
  "or_none x = (case x of None \<Rightarrow> None | Some v \<Rightarrow> if v = [] then None else Some v)"

definition enable_batch_mode ::
  "batch_mode_manager \<Rightarrow> string \<Rightarrow> bool \<Rightarrow> string \<Rightarrow> string option \<Rightarrow> string option
     \<Rightarrow> batch_mode_manager \<times> signal list" where
  "enable_batch_mode s res subs path cont aud =
     (s\<lparr>is_batch_mode := True,
        batch_settings :=
          \<lparr>resolution = res, download_subs = subs, download_path = path,
           container_override = or_none cont, audio_override = or_none aud\<rparr>,
        batch_queue := [], current_batch_index := 0,
        successful_downloads := 0, failed_downloads := 0\<rparr>,
      [Batch_status_changed True])"

definition disable_batch_mode :: "batch_mode_manager \<Rightarrow> batch_mode_manager \<times> signal list" where
  "disable_batch_mode s =
     (s\<lparr>is_batch_mode := False, batch_queue := [], current_batch_index := 0,
        successful_downloads := 0, failed_downloads := 0,
        current_playlist_info := None, playlist_current_index := 0\<rparr>,
      [Batch_status_changed False])"

text \<open>
  \<open>handle_playlist_url\<close> only starts the extraction thread; the queue changes later, in
  \<open>on_playlist_info_extracted\<close>. The URL test \<open>is_playlist_url\<close> rests on the standard
  library's URL parser and is a parameter here.
\<close>

definition handle_playlist_url ::
  "(string \<Rightarrow> bool) \<Rightarrow> batch_mode_manager \<Rightarrow> string \<Rightarrow> int option
     \<Rightarrow> batch_mode_manager \<times> bool \<times> signal list" where
  "handle_playlist_url is_playlist_url s u queue_limit =
     (if \<not> is_playlist_url u then (s, False, [])
      else
        let cap1 = (case queue_limit of None \<Rightarrow> None | Some l \<Rightarrow> if l > 0 then Some l else None);
            eff_cap = (case playlist_max_items s of
                         None \<Rightarrow> cap1
                       | Some m \<Rightarrow> if m > 0
                                  then (case cap1 of None \<Rightarrow> Some m | Some c \<Rightarrow> Some (min c m))
                                  else cap1)
        in (s\<lparr>extractor := Some (u, eff_cap)\<rparr>, True,
            [Playlist_loading ''Getting playlist information...'']))"

definition on_playlist_info_extracted ::
  "batch_mode_manager \<Rightarrow> playlist_info \<Rightarrow> int option \<Rightarrow> batch_mode_manager \<times> signal list" where
  "on_playlist_info_extracted s info queue_limit =
     (let s1 = s\<lparr>current_playlist_info := Some info, playlist_current_index := 0\<rparr>;
          en = (if \<not> is_batch_mode s1
                then enable_batch_mode s1 ''720p'' False '''' None None else (s1, []));
          s2 = fst en;
          total = pl_video_count info;
          m1 = (case queue_limit of None \<Rightarrow> total | Some l \<Rightarrow> if l > 0 then min total l else total);
          max_items = (case playlist_max_items s2 of
                         None \<Rightarrow> m1 | Some m \<Rightarrow> if m > 0 then min m1 m else m1);
          q = map (\<lambda>i. ''PLAYLIST_ITEM_'' @ str_int (i + 1)) (range_py max_items);
          s3 = s2\<lparr>batch_queue := q\<rparr>
      in (s3,
          [Playlist_detected info] @ snd en @
          [Playlist_loading (''Playlist '' @ [CHR 0x27] @ pl_title info @ [CHR 0x27] @ '' ready: '' @
                             str_int max_items @ '' videos queued for download''),
           Queue_updated] @
          (case queue_limit of
             None \<Rightarrow> []
           | Some l \<Rightarrow> if int (length q) \<ge> l then [Queue_limit_reached (int (length q))] else [])))"

definition on_playlist_extraction_failed ::
  "batch_mode_manager \<Rightarrow> string \<Rightarrow> batch_mode_manager \<times> signal list" where
  "on_playlist_extraction_failed s error_msg =
     (s, [Playlist_loading (''Playlist extraction failed: '' @ error_msg)])"

definition get_playlist_video_url :: "batch_mode_manager \<Rightarrow> int \<Rightarrow> string option" where
  "get_playlist_video_url s index =
     (case current_playlist_info s of
        None \<Rightarrow> None
      | Some info \<Rightarrow>
          let entries = pl_entries info;
              entry_url = (if 0 \<le> index \<and> index < int (length entries)
                           then Some (entries ! nat index) else None);
              list_id = (if pl_list_id info \<noteq> [] then pl_list_id info else pl_id info);
              hint = ''list='' @ list_id @ ''&index='' @ str_int (index + 1)
          in (case (case entry_url of None \<Rightarrow> None | Some e \<Rightarrow> if e = [] then None else Some e) of
                Some e \<Rightarrow>
                  let sep = (if CHR ''?'' \<in> set e then ''&'' else ''?'')
                  in if list_id \<noteq> [] then Some (e @ sep @ hint) else Some e
              | None \<Rightarrow>
                  let playlist_url = pl_url info
                  in if playlist_url \<noteq> []
                     then let sep = (if CHR ''?'' \<in> set playlist_url then ''&'' else ''?'')
                          in if list_id \<noteq> [] then Some (playlist_url @ sep @ hint)
                             else Some (playlist_url @ sep @ ''index='' @ str_int (index + 1))
                     else None))"

text \<open>
  \<open>_build_batch_item_data\<close>. The sub-folder chosen for playlist items
  (\<open>_resolve_playlist_download_path\<close>) depends on the application settings and the file
  system's path syntax and is a parameter.
\<close>

definition build_batch_item_data ::
  "(batch_mode_manager \<Rightarrow> string \<Rightarrow> string) \<Rightarrow> batch_mode_manager \<Rightarrow> string \<Rightarrow> bool \<Rightarrow> int
     \<Rightarrow> batch_mode_manager \<times> batch_item option" where
  "build_batch_item_data resolve_playlist_download_path s queue_item is_playlist_item item_index =
     (let st = batch_settings s;
          mk = (\<lambda>u p. \<lparr>resolution = resolution st, download_subs = download_subs st,
                        download_path = p, container_override = container_override st,
                        audio_override = audio_override st, url = u\<rparr>)
      in if is_playlist_item
         then (case get_playlist_video_url s item_index of
                 None \<Rightarrow> (s, None)
               | Some actual_url \<Rightarrow>
                   if actual_url = [] then (s, None)
                   else
                     let s' = s\<lparr>playlist_current_index := item_index + 1\<rparr>
                     in (s', Some (mk actual_url
                                     (if download_path st \<noteq> []
                                      then resolve_playlist_download_path s' (download_path st)
                                      else download_path st))))
         else (s, Some (mk queue_item (download_path st))))"

text \<open>
  \<open>get_next_batch_item\<close>. The cursor is advanced before the item is built. When no URL
  can be built for a placeholder, \<open>item_data\<close> is \<open>None\<close> and the debug print that
  follows raises AttributeError.
\<close>

definition get_next_batch_item ::
  "(batch_mode_manager \<Rightarrow> string \<Rightarrow> string) \<Rightarrow> batch_mode_manager
     \<Rightarrow> batch_mode_manager \<times> (py_error + batch_item option)" where
  "get_next_batch_item resolve_playlist_download_path s =
     (if \<not> is_batch_mode s \<or> current_batch_index s \<ge> int (length (batch_queue s))
      then (s, Inr None)
      else
        (case py_index (batch_queue s) (current_batch_index s) of
           None \<Rightarrow> (s, Inl IndexError)
         | Some queue_item \<Rightarrow>
             let s1 = s\<lparr>current_batch_index := current_batch_index s + 1\<rparr>;
                 parsed = (if startswith queue_item ''PLAYLIST_ITEM_''
                           then (case int_of_str (last_segment queue_item) of
                                   Some n \<Rightarrow> (n, True) | None \<Rightarrow> (0, False))
                           else (0, False));
                 built = build_batch_item_data resolve_playlist_download_path s1 queue_item
                           (snd parsed) (fst parsed)
             in (case snd built of
                   None \<Rightarrow> (fst built, Inl AttributeError)
                 | Some item_data \<Rightarrow> (fst built, Inr (Some item_data)))))"

definition mark_download_completed :: "batch_mode_manager \<Rightarrow> bool \<Rightarrow> batch_mode_manager" where
  "mark_download_completed s success =
     (if success then s\<lparr>successful_downloads := successful_downloads s + 1\<rparr>
      else s\<lparr>failed_downloads := failed_downloads s + 1\<rparr>)"

definition is_batch_complete :: "batch_mode_manager \<Rightarrow> bool" where
  "is_batch_complete s = (current_batch_index s \<ge> int (length (batch_queue s)))"

text \<open>
  \<open>get_batch_summary\<close>, without the floating-point \<open>completion_rate\<close> (it is
  \<open>successful / total * 100\<close> of the fields kept here).
\<close>

record batch_summary =
  total :: int
  successful :: int
  failed :: int
  playlist :: "string option"

definition get_batch_summary :: "batch_mode_manager \<Rightarrow> batch_summary" where
  "get_batch_summary s =
     \<lparr>total = int (length (batch_queue s)), successful = successful_downloads s,
      failed = failed_downloads s,
      playlist = map_option pl_title (current_playlist_info s)\<rparr>"

definition clear_batch_queue :: "batch_mode_manager \<Rightarrow> batch_mode_manager \<times> signal list" where
  "clear_batch_queue s =
     (s\<lparr>batch_queue := [], current_batch_index := 0,
        successful_downloads := 0, failed_downloads := 0,
        current_playlist_info := None, playlist_current_index := 0\<rparr>,
      [Queue_updated])"

definition trim_queue_to_limit ::
  "batch_mode_manager \<Rightarrow> int option \<Rightarrow> batch_mode_manager \<times> signal list" where
  "trim_queue_to_limit s limit =
     (case limit of
        None \<Rightarrow> (s, [])
      | Some l \<Rightarrow>
          if l < 0 then (s, [])
          else
            let s1 = s\<lparr>playlist_max_items := Some l\<rparr>
            in if int (length (batch_queue s1)) > l
               then
                 let q = take (nat l) (batch_queue s1);
                     s2 = s1\<lparr>batch_queue := q\<rparr>;
                     s3 = (if current_batch_index s2 > int (length q)
                           then s2\<lparr>current_batch_index := int (length q)\<rparr> else s2);
                     s4 = (if playlist_current_index s3 > int (length q)
                           then s3\<lparr>playlist_current_index := int (length q)\<rparr> else s3)
                 in (s4, [Queue_updated])
               else (s1, []))"

definition enforce_playlist_limit ::
  "batch_mode_manager \<Rightarrow> int option \<Rightarrow> batch_mode_manager \<times> signal list" where
  "enforce_playlist_limit s limit =
     (case limit of
        None \<Rightarrow> (s, [])
      | Some l \<Rightarrow>
          if l > 0 then trim_queue_to_limit (s\<lparr>playlist_max_items := Some l\<rparr>) limit
          else (s, []))"

definition remove_from_queue :: "batch_mode_manager \<Rightarrow> int \<Rightarrow> batch_mode_manager \<times> signal list" where
  "remove_from_queue s index =
     (if 0 \<le> index \<and> index < int (length (batch_queue s))
      then
        let q = take (nat index) (batch_queue s) @ drop (nat index + 1) (batch_queue s);
            s1 = s\<lparr>batch_queue := q\<rparr>;
            s2 = (if index < current_batch_index s1
                  then s1\<lparr>current_batch_index := current_batch_index s1 - 1\<rparr> else s1)
        in (s2, [Queue_updated])
      else (s, []))"

text \<open>
  \<open>move_in_queue\<close>: \<open>pop(from_index)\<close> followed by \<open>insert(to_index, item)\<close>, then the
  three-way adjustment of the cursor.
\<close>

definition move_in_queue ::
  "batch_mode_manager \<Rightarrow> int \<Rightarrow> int \<Rightarrow> batch_mode_manager \<times> bool \<times> signal list" where
  "move_in_queue s from_index to_index =
     (if \<not> (0 \<le> from_index \<and> from_index < int (length (batch_queue s))) then (s, False, [])
      else if \<not> (0 \<le> to_index \<and> to_index < int (length (batch_queue s))) then (s, False, [])
      else if from_index = to_index then (s, True, [])
      else
        let item = batch_queue s ! nat from_index;
            popped = take (nat from_index) (batch_queue s) @ drop (nat from_index + 1) (batch_queue s);
            q = take (nat to_index) popped @ [item] @ drop (nat to_index) popped;
            s1 = s\<lparr>batch_queue := q\<rparr>;
            cur = current_batch_index s1;
            s2 = (if cur = from_index then s1\<lparr>current_batch_index := to_index\<rparr>
                  else if from_index < cur \<and> cur \<le> to_index
                  then s1\<lparr>current_batch_index := cur - 1\<rparr>
                  else if to_index \<le> cur \<and> cur < from_index
                  then s1\<lparr>current_batch_index := cur + 1\<rparr>
                  else s1)
        in (s2, True, [Queue_updated]))"

definition restart_batch :: "batch_mode_manager \<Rightarrow> batch_mode_manager" where
  "restart_batch s =
     s\<lparr>current_batch_index := 0, successful_downloads := 0, failed_downloads := 0,
       playlist_current_index := 0\<rparr>"

text \<open>
  \<open>int(queue_limit * 0.8)\<close>: the product is a float, truncated towards zero. For the
  limits a queue can have (far below \<open>2^50\<close>) this is the integer computed here.
\<close>

definition warning_threshold :: "int \<Rightarrow> int" where
  "warning_threshold queue_limit =
     (if queue_limit \<ge> 0 then (4 * queue_limit) div 5 else - ((4 * (- queue_limit)) div 5))"

definition add_to_batch ::
  "(string \<Rightarrow> bool) \<Rightarrow> batch_mode_manager \<Rightarrow> string \<Rightarrow> int option
     \<Rightarrow> batch_mode_manager \<times> bool \<times> signal list" where
  "add_to_batch is_playlist_url s u0 queue_limit =
     (if u0 = [] \<or> strip u0 = [] then (s, False, [])
      else
        let u = strip u0;
            n = int (length (batch_queue s))
        in if (case queue_limit of None \<Rightarrow> False | Some l \<Rightarrow> n \<ge> l)
           then (s, False, [Queue_limit_reached n])
           else if is_playlist_url u then handle_playlist_url is_playlist_url s u queue_limit
           else if u \<in> set (batch_queue s) then (s, False, [])
           else
             let s1 = s\<lparr>batch_queue := batch_queue s @ [u]\<rparr>;
                 n1 = int (length (batch_queue s1))
             in (s1, True,
                 [Queue_updated] @
                 (case queue_limit of
                    None \<Rightarrow> []
                  | Some l \<Rightarrow> if n1 \<ge> warning_threshold l then [Queue_limit_warning n1 l] else [])))"


definition update_batch_settings ::
  "batch_mode_manager \<Rightarrow> string option \<Rightarrow> bool option \<Rightarrow> string option \<Rightarrow> string option
     \<Rightarrow> string option \<Rightarrow> batch_mode_manager" where
  "update_batch_settings s res subs path cont aud =
     (if \<not> is_batch_mode s then s
      else
        let st0 = batch_settings s;
            st1 = (case res of None \<Rightarrow> st0 | Some r \<Rightarrow> st0\<lparr>resolution := r\<rparr>);
            st2 = (case subs of None \<Rightarrow> st1 | Some b \<Rightarrow> st1\<lparr>download_subs := b\<rparr>);
            st3 = (case path of None \<Rightarrow> st2 | Some p \<Rightarrow> st2\<lparr>download_path := p\<rparr>);
            st4 = (case cont of None \<Rightarrow> st3 | Some c \<Rightarrow> st3\<lparr>container_override := Some c\<rparr>);
            st5 = (case aud of None \<Rightarrow> st4 | Some a \<Rightarrow> st4\<lparr>audio_override := Some a\<rparr>)
        in s\<lparr>batch_settings := st5\<rparr>)"

section \<open>process.py and main.py: the download thread and the batch pump\<close>

text \<open>
  What the controller takes from outside: the download itself
  (\<open>DownloadThread._download_with_ytdl\<close> for a URL, the callable handed to the retry
  handler), the video title it has found so far, the queue limit of the settings, the
  cookie settings and the answer of the cookie dialog, and the two parameters of the
  manager.
\<close>

record 'w environment =
  env_download :: "string \<Rightarrow> ('w, unit) callable"
  env_video_title :: "'w \<Rightarrow> string option"
  env_queue_limit :: int
  env_disable_cookies :: bool
  env_cookie_dialog :: bool
  env_is_playlist_url :: "string \<Rightarrow> bool"
  env_resolve_path :: "batch_mode_manager \<Rightarrow> string \<Rightarrow> string"

text \<open>
  The controller fields the pump reads and writes. The three \<open>ui_\<close> fields are the
  resolution box, the subtitle box and the path input that \<open>reset_ui\<close> copies into the
  batch settings.
\<close>

record controller =
  batch_manager :: batch_mode_manager
  is_downloading :: bool
  block_batch_after_cancel :: bool
  link_input :: string
  ui_resolution :: string
  ui_subtitles :: bool
  ui_path :: string

text \<open>
  The Qt event loop delivers the thread's queued signals and the single-shot timers to
  the controller one after the other. The model keeps them in a FIFO list; real time
  (the length of a delay) is not modelled. The trace records each thread that ran, with
  the trace of its retry handler, and each batch summary computed by \<open>complete_batch\<close>.
\<close>

datatype queued =
    Download_failed string
  | Finished
  | Timer_start_batch_download
  | Timer_reset_ui

datatype ctl_event =
    Thread_ran string "retry_event list"
  | Batch_completed batch_summary

type_synonym 'w step = "py_error + controller \<times> 'w \<times> queued list \<times> ctl_event list"

text \<open>
  \<open>DownloadThread.run\<close>: the whole download goes through the retry handler (three
  retries, delays 30 s, 60 s, 180 s). An exception emits \<open>download_failed\<close> unless the
  thread was cancelled; \<open>finished\<close> is emitted in the \<open>finally\<close> block in every case.
  \<open>DownloadThread.cancel\<close> sets the thread's flag together with the handler's, so the
  handler's flag is read for both.
\<close>

definition thread_run ::
  "'w environment \<Rightarrow> string \<Rightarrow> 'w \<Rightarrow> queued list \<times> 'w \<times> retry_event list" where
  "thread_run env u w =
     (case execute_with_retry (env_download env u)
             (create_download_retry_handler 3 (Some [30, 60, 180])) w of
        (Returned r, h', w', tr) \<Rightarrow> ([Finished], w', tr)
      | (Raised e, h', w', tr) \<Rightarrow>
          ((if \<not> is_cancelled h'
            then [Download_failed
                    (case env_video_title env w' of
                       None \<Rightarrow> ''Download failed: '' @ e
                     | Some t \<Rightarrow> if t = [] then ''Download failed: '' @ e
                                 else ''Error downloading '' @ t @ '': '' @ e)]
            else []) @ [Finished],
           w', tr))"

definition reset_ui :: "controller \<Rightarrow> controller" where
  "reset_ui c =
     (let c1 = (if \<not> is_batch_mode (batch_manager c) \<or> is_batch_complete (batch_manager c)
                then c\<lparr>link_input := []\<rparr> else c)
      in if is_batch_mode (batch_manager c1)
         then c1\<lparr>batch_manager :=
                   update_batch_settings (batch_manager c1) (Some (ui_resolution c1))
                     (Some (ui_subtitles c1)) (Some (strip (ui_path c1))) None None\<rparr>
         else c1)"

definition complete_batch :: "controller \<Rightarrow> 'w \<Rightarrow> 'w step" where
  "complete_batch c w =
     (let summary = get_batch_summary (batch_manager c);
          c1 = reset_ui c;
          c2 = c1\<lparr>batch_manager := fst (clear_batch_queue (batch_manager c1))\<rparr>
      in Inr (c2, w, [], [Batch_completed summary]))"

definition start_download_with_settings ::
  "'w environment \<Rightarrow> controller \<Rightarrow> string \<Rightarrow> 'w \<Rightarrow> 'w step" where
  "start_download_with_settings env c u w =
     (case thread_run env u w of
        (sigs, w', tr) \<Rightarrow> Inr (c\<lparr>is_downloading := True\<rparr>, w', sigs, [Thread_ran u tr]))"

definition start_batch_download :: "'w environment \<Rightarrow> controller \<Rightarrow> 'w \<Rightarrow> 'w step" where
  "start_batch_download env c w =
     (if is_downloading c then Inr (c, w, [], [])
      else if block_batch_after_cancel c
      then Inr (c\<lparr>block_batch_after_cancel := False\<rparr>, w, [], [])
      else if \<not> is_batch_mode (batch_manager c) then Inr (c, w, [], [])
      else
        let current_url = strip (link_input c);
            c1 = (if current_url \<noteq> [] \<and> \<not> env_is_playlist_url env current_url
                  then (case add_to_batch (env_is_playlist_url env) (batch_manager c) current_url
                               (Some (env_queue_limit env)) of
                          (bm', added, sigs) \<Rightarrow>
                            c\<lparr>batch_manager := bm',
                              link_input := (if added then [] else link_input c)\<rparr>)
                  else c)
        in (case get_next_batch_item (env_resolve_path env) (batch_manager c1) of
              (bm', Inl err) \<Rightarrow> Inl err
            | (bm', Inr (Some next_item)) \<Rightarrow>
                start_download_with_settings env (c1\<lparr>batch_manager := bm'\<rparr>) (url next_item) w
            | (bm', Inr None) \<Rightarrow>
                if is_batch_complete bm' then complete_batch (c1\<lparr>batch_manager := bm'\<rparr>) w
                else Inr (c1\<lparr>batch_manager := bm'\<rparr>, w, [], [])))"

text \<open>
  The common tail of the failure paths in batch mode: count the failure, then either
  schedule the next \<open>start_batch_download\<close> or complete the batch.
\<close>

definition fail_and_continue :: "controller \<Rightarrow> 'w \<Rightarrow> 'w step" where
  "fail_and_continue c w =
     (let c1 = c\<lparr>batch_manager := mark_download_completed (batch_manager c) False\<rparr>
      in if \<not> is_batch_complete (batch_manager c1)
         then Inr (c1, w, [Timer_start_batch_download], [])
         else complete_batch c1 w)"

definition handle_authentication_error :: "'w environment \<Rightarrow> controller \<Rightarrow> 'w \<Rightarrow> 'w step" where
  "handle_authentication_error env c w =
     (if env_disable_cookies env \<or> \<not> env_cookie_dialog env
      then (if is_batch_mode (batch_manager c) then fail_and_continue c w
            else Inr (reset_ui c, w, [], []))
      else (if is_batch_mode (batch_manager c) then start_batch_download env c w
            else start_download_with_settings env c (strip (link_input c)) w))"

definition bot_check_message :: string where
  "bot_check_message = ''Sign in to confirm you'' @ [CHR 0x27] @ ''re not a bot''"

definition on_download_failed :: "'w environment \<Rightarrow> controller \<Rightarrow> string \<Rightarrow> 'w \<Rightarrow> 'w step" where
  "on_download_failed env c error_message w =
     (let c1 = c\<lparr>is_downloading := False\<rparr>
      in if str_in bot_check_message error_message then handle_authentication_error env c1 w
         else if is_batch_mode (batch_manager c1) then fail_and_continue c1 w
         else Inr (reset_ui c1, w, [], []))"

text \<open>
  \<open>on_download_finished\<close> is connected to the thread's \<open>finished\<close> signal and counts a
  success whenever it runs in batch mode.
\<close>

definition on_download_finished :: "controller \<Rightarrow> 'w \<Rightarrow> 'w step" where
  "on_download_finished c w =
     (let c1 = c\<lparr>is_downloading := False\<rparr>
      in if is_batch_mode (batch_manager c1)
         then
           let c2 = c1\<lparr>batch_manager := mark_download_completed (batch_manager c1) True\<rparr>
           in if \<not> is_batch_complete (batch_manager c2)
              then Inr (c2, w, [Timer_start_batch_download], [])
              else complete_batch c2 w
         else Inr (c1, w, [Timer_reset_ui], []))"

definition deliver :: "'w environment \<Rightarrow> queued \<Rightarrow> controller \<Rightarrow> 'w \<Rightarrow> 'w step" where
  "deliver env q c w =
     (case q of
        Download_failed msg \<Rightarrow> on_download_failed env c msg w
      | Finished \<Rightarrow> on_download_finished c w
      | Timer_start_batch_download \<Rightarrow> start_batch_download env c w
      | Timer_reset_ui \<Rightarrow> Inr (reset_ui c, w, [], []))"

text \<open>
  The event loop, with fuel: \<open>None\<close> when the fuel runs out before the queue of pending
  events is empty, \<open>Some (Inl e)\<close> when a slot raised.
\<close>

fun pump ::
  "nat \<Rightarrow> 'w environment \<Rightarrow> queued list \<Rightarrow> controller \<Rightarrow> 'w \<Rightarrow> ctl_event list
     \<Rightarrow> (py_error + controller \<times> 'w \<times> ctl_event list) option" where
  "pump n env [] c w tr = Some (Inr (c, w, tr))"
| "pump 0 env (q # qs) c w tr = None"
| "pump (Suc n) env (q # qs) c w tr =
     (case deliver env q c w of
        Inl err \<Rightarrow> Some (Inl err)
      | Inr (c', w', new, evs) \<Rightarrow> pump n env (qs @ new) c' w' (tr @ evs))"

definition run_batch ::
  "nat \<Rightarrow> 'w environment \<Rightarrow> controller \<Rightarrow> 'w
     \<Rightarrow> (py_error + controller \<times> 'w \<times> ctl_event list) option" where
  "run_batch fuel env c w =
     (case start_batch_download env c w of
        Inl err \<Rightarrow> Some (Inl err)
      | Inr (c', w', new, evs) \<Rightarrow> pump fuel env new c' w' evs)"


section \<open>Concrete inputs\<close>

text \<open>
  A callable that raises the same message at every invocation and counts its
  invocations in the world.
\<close>

definition failing_callable :: "string \<Rightarrow> (nat, unit) callable" where
  "failing_callable msg h w = (Inl msg, h, Suc w)"

text \<open>
  The list after \<open>pop(a)\<close> and \<open>insert(b, item)\<close>, as \<open>move_in_queue\<close> computes it.
\<close>

definition move_list :: "'a list \<Rightarrow> nat \<Rightarrow> nat \<Rightarrow> 'a list" where
  "move_list xs a b = (let popped = take a xs @ drop (Suc a) xs in take b popped @ [xs ! a] @ drop b popped)"

text \<open>The queue \<open>[A, B, C, D]\<close> with the cursor at \<open>C\<close>.\<close>

definition abcd :: batch_mode_manager where
  "abcd = BatchModeManager\<lparr>is_batch_mode := True, batch_queue := [''A'', ''B'', ''C'', ''D''],
            current_batch_index := 2\<rparr>"

text \<open>
  A stand-in for \<open>is_playlist_url\<close> on the concrete URLs used below (none of which
  has a \<open>list=\<close> parameter), and queues built through \<open>enable_batch_mode\<close> and
  \<open>add_to_batch\<close>.
\<close>

definition stub_is_playlist_url :: "string \<Rightarrow> bool" where
  "stub_is_playlist_url u = str_in ''list='' u"

definition add_all ::
  "(string \<Rightarrow> bool) \<Rightarrow> int option \<Rightarrow> string list \<Rightarrow> batch_mode_manager \<Rightarrow> batch_mode_manager" where
  "add_all isp lim us s = foldl (\<lambda>s u. fst (add_to_batch isp s u lim)) s us"

definition batch_of :: "int \<Rightarrow> string list \<Rightarrow> batch_mode_manager" where
  "batch_of lim us =
     add_all stub_is_playlist_url (Some lim) us
       (fst (enable_batch_mode BatchModeManager ''720p'' False ''/dl'' None None))"


text \<open>The cursor invariant \<open>0 \<le> cursor \<le> len(items)\<close>.\<close>

definition queue_inv :: "batch_mode_manager \<Rightarrow> bool" where
  "queue_inv s = (0 \<le> current_batch_index s \<and> current_batch_index s \<le> int (length (batch_queue s)))"

text \<open>
  A playlist of ten entries \<open>e0 \<dots> e9\<close> and a playlist of one entry, as the extractor
  reports them.
\<close>

definition ten_entries :: playlist_info where
  "ten_entries =
     \<lparr>pl_title = ''Ten'', pl_uploader = ''Channel'', pl_video_count = 10,
      pl_url = ''https://www.youtube.com/playlist?list=PL1'', pl_id = ''PL1'',
      pl_entries = map (\<lambda>i. ''https://www.youtube.com/watch?v=e'' @ str_int i) (range_py 10),
      pl_list_id = ''PL1'', pl_is_mix = False\<rparr>"

definition one_entry :: playlist_info where
  "one_entry =
     \<lparr>pl_title = ''One'', pl_uploader = ''Channel'', pl_video_count = 1,
      pl_url = ''https://www.youtube.com/playlist?list=PL2'', pl_id = ''PL2'',
      pl_entries = [''https://www.youtube.com/watch?v=f0''],
      pl_list_id = ''PL2'', pl_is_mix = False\<rparr>"

text \<open>The results of \<open>n\<close> successive calls of \<open>get_next_batch_item\<close>.\<close>

fun dequeue_n ::
  "(batch_mode_manager \<Rightarrow> string \<Rightarrow> string) \<Rightarrow> nat \<Rightarrow> batch_mode_manager
     \<Rightarrow> (py_error + batch_item option) list" where
  "dequeue_n rp 0 s = []"
| "dequeue_n rp (Suc n) s = (case get_next_batch_item rp s of (s', r) \<Rightarrow> r # dequeue_n rp n s')"

text \<open>Batch mode with three plain URLs queued, two of them already dispatched.\<close>

definition two_dispatched :: batch_mode_manager where
  "two_dispatched =
     fst (get_next_batch_item (\<lambda>s p. p)
       (fst (get_next_batch_item (\<lambda>s p. p)
          (batch_of 10 [''https://youtu.be/v1'', ''https://youtu.be/v2'', ''https://youtu.be/v3'']))))"

text \<open>
  The end-to-end scenario: three plain URLs, queue limit 10. The download of the first
  URL succeeds, the download of the second raises a connection timeout at its first
  invocation and succeeds afterwards, the download of the third raises "Private video".
  The world is the list of the URLs the download was invoked for.
\<close>

definition scenario_download :: "string \<Rightarrow> (string list, unit) callable" where
  "scenario_download u h w =
     (if u = ''https://youtu.be/v1'' then (Inr (), h, w @ [u])
      else if u = ''https://youtu.be/v2''
      then (if u \<in> set w then (Inr (), h, w @ [u]) else (Inl ''Connection timeout'', h, w @ [u]))
      else (Inl ''ERROR: Private video'', h, w @ [u]))"

definition scenario_env :: "string list environment" where
  "scenario_env =
     \<lparr>env_download = scenario_download, env_video_title = (\<lambda>w. None), env_queue_limit = 10,
      env_disable_cookies = False, env_cookie_dialog = False,
      env_is_playlist_url = stub_is_playlist_url, env_resolve_path = (\<lambda>s p. p)\<rparr>"

definition scenario_controller :: controller where
  "scenario_controller =
     \<lparr>batch_manager =
        batch_of 10 [''https://youtu.be/v1'', ''https://youtu.be/v2'', ''https://youtu.be/v3''],
      is_downloading = False, block_batch_after_cancel = False, link_input = [],
      ui_resolution = ''720p'', ui_subtitles = False, ui_path = ''/dl''\<rparr>"

text \<open>The threads of a controller trace with the number of invocations of each, and the summaries.\<close>

fun invocations :: "ctl_event list \<Rightarrow> (string \<times> nat) list" where
  "invocations [] = []"
| "invocations (Thread_ran u tr # evs) = (u, length (calls tr)) # invocations evs"
| "invocations (Batch_completed b # evs) = invocations evs"

fun summaries :: "ctl_event list \<Rightarrow> batch_summary list" where
  "summaries [] = []"
| "summaries (Thread_ran u tr # evs) = summaries evs"
| "summaries (Batch_completed b # evs) = b # summaries evs"

section \<open>Properties of the retry handler\<close>

lemma range_py_Cons: "0 < n \<Longrightarrow> range_py n = 0 # map int [1..<nat n]"
  by (simp add: range_py_def upt_conv_Cons)

lemma range_py_4: "range_py 4 = [0, 1, 2, 3]"
  by code_simp

lemma list_ex_str_in: "p \<in> set ps \<Longrightarrow> str_in p s \<Longrightarrow> list_ex (\<lambda>pattern. str_in pattern s) ps"
  by (auto simp: list_ex_iff)

text \<open>
  C6. An error whose lower-cased message contains no pattern of the non-retryable list
  and no pattern of the retryable list is classified as retryable.
\<close>

theorem unmatched_error_is_retryable:
  assumes "\<forall>p \<in> set non_retryable_patterns. \<not> str_in p (lower msg)"
    and "\<forall>p \<in> set retryable_patterns. \<not> str_in p (lower msg)"
  shows "is_retryable_error msg"
  using assms by (simp add: is_retryable_error_def list_ex_iff)

theorem unmatched_error_is_retryable_witness:
  "is_retryable_error ''Disk quota exceeded''"
proof -
  have a: "\<forall>p \<in> set non_retryable_patterns. \<not> str_in p (lower ''Disk quota exceeded'')"
    by code_simp
  have b: "\<forall>p \<in> set retryable_patterns. \<not> str_in p (lower ''Disk quota exceeded'')"
    by code_simp
  show ?thesis
    by (rule unmatched_error_is_retryable [OF a b])
qed

lemma range_py_Suc: "0 \<le> m \<Longrightarrow> range_py (m + 1) = 0 # map int [1..<nat (m + 1)]"
  by (simp add: range_py_Cons)

lemma delay_lookup:
  "ds \<noteq> [] \<Longrightarrow> 0 < a \<Longrightarrow>
   py_index ds (min (a - 1) (int (length ds) - 1)) = Some (ds ! min (nat (a - 1)) (length ds - 1))"
  by (cases ds) (auto simp: py_index_def Let_def min_def nat_diff_distrib)

text \<open>
  C3. With \<open>max_retries = 3\<close>, a handler that is not cancelled and a callable whose
  invocations all raise a retryable error (the first in the world \<open>w\<close>, each further
  one in the world the previous invocation left), \<open>execute_with_retry\<close> invokes the
  callable exactly four times, with the three scheduled sleeps in between, ends in the
  world the fourth invocation left and raises the error of the fourth invocation.
\<close>

theorem retry_budget_exhausted:
  assumes m: "max_retries h = 3" and nc: "\<not> is_cancelled h" and d: "retry_delays h \<noteq> []"
    and s1: "func h w = (Inl e1, h, w1)" and r1: "is_retryable_error e1"
    and s2: "func h w1 = (Inl e2, h, w2)" and r2: "is_retryable_error e2"
    and s3: "func h w2 = (Inl e3, h, w3)" and r3: "is_retryable_error e3"
    and s4: "func h w3 = (Inl e4, h, w4)" and r4: "is_retryable_error e4"
  shows "execute_with_retry func h w =
           (Raised e4, h, w4,
            [Call_raised e1,
             Retry_attempt 1 3 e1, Sleep (retry_delays h ! 0), Call_raised e2,
             Retry_attempt 2 3 e2, Sleep (retry_delays h ! min 1 (length (retry_delays h) - 1)),
             Call_raised e3,
             Retry_attempt 3 3 e3, Sleep (retry_delays h ! min 2 (length (retry_delays h) - 1)),
             Call_raised e4,
             Retry_failed (''Download failed after 3 retry attempts: '' @ e4)])
       \<and> calls (snd (snd (snd (execute_with_retry func h w))))
           = [Call_raised e1, Call_raised e2, Call_raised e3, Call_raised e4]"
proof -
  let ?d1 = "retry_delays h ! 0"
  let ?d2 = "retry_delays h ! min 1 (length (retry_delays h) - 1)"
  let ?d3 = "retry_delays h ! min 2 (length (retry_delays h) - 1)"
  have i1: "py_index (retry_delays h) (min (1 - 1) (int (length (retry_delays h)) - 1)) = Some ?d1"
    using delay_lookup [OF d, of 1] by simp
  have i2: "py_index (retry_delays h) (min (2 - 1) (int (length (retry_delays h)) - 1)) = Some ?d2"
    using delay_lookup [OF d, of 2] by simp
  have i3: "py_index (retry_delays h) (min (3 - 1) (int (length (retry_delays h)) - 1)) = Some ?d3"
    using delay_lookup [OF d, of 3] by simp
  have t0: "try_body func 0 None h w = (Inl e1, h, w1, [Call_raised e1])"
    using s1 by (simp add: try_body_def)
  have t1: "try_body func 1 (Some e1) h w1
              = (Inl e2, h, w2, [Retry_attempt 1 3 e1, Sleep ?d1, Call_raised e2])"
    using s2 i1 m by (simp add: try_body_def str_exc_def)
  have t2: "try_body func 2 (Some e2) h w2
              = (Inl e3, h, w3, [Retry_attempt 2 3 e2, Sleep ?d2, Call_raised e3])"
    using s3 i2 m by (simp add: try_body_def str_exc_def)
  have t3: "try_body func 3 (Some e3) h w3
              = (Inl e4, h, w4, [Retry_attempt 3 3 e3, Sleep ?d3, Call_raised e4])"
    using s4 i3 m by (simp add: try_body_def str_exc_def)
  have s3': "str_int 3 = ''3''" by code_simp
  have run: "execute_with_retry func h w =
          (Raised e4, h, w4,
           [Call_raised e1, Retry_attempt 1 3 e1, Sleep ?d1, Call_raised e2,
            Retry_attempt 2 3 e2, Sleep ?d2, Call_raised e3,
            Retry_attempt 3 3 e3, Sleep ?d3, Call_raised e4,
            Retry_failed (''Download failed after 3 retry attempts: '' @ e4)])"
    using m nc r1 r2 r3 r4 t0 t1 t2 t3
    by (simp add: execute_with_retry_def range_py_4 s3')
  show ?thesis
    unfolding run by (simp add: calls_def)
qed

theorem retry_budget_exhausted_witness:
  "execute_with_retry (failing_callable ''Connection timeout'') (create_download_retry_handler 3 None) 0
     = (Raised ''Connection timeout'', create_download_retry_handler 3 None, 4,
        [Call_raised ''Connection timeout'',
         Retry_attempt 1 3 ''Connection timeout'', Sleep 30, Call_raised ''Connection timeout'',
         Retry_attempt 2 3 ''Connection timeout'', Sleep 60, Call_raised ''Connection timeout'',
         Retry_attempt 3 3 ''Connection timeout'', Sleep 180, Call_raised ''Connection timeout'',
         Retry_failed ''Download failed after 3 retry attempts: Connection timeout''])
   \<and> calls (snd (snd (snd (execute_with_retry (failing_callable ''Connection timeout'')
                               (create_download_retry_handler 3 None) 0))))
     = [Call_raised ''Connection timeout'', Call_raised ''Connection timeout'',
        Call_raised ''Connection timeout'', Call_raised ''Connection timeout'']"
proof -
  let ?h = "create_download_retry_handler 3 None"
  let ?f = "failing_callable ''Connection timeout''"
  have m: "max_retries ?h = 3" by (simp add: create_download_retry_handler_def RetryHandler_def)
  have nc: "\<not> is_cancelled ?h" by (simp add: create_download_retry_handler_def RetryHandler_def)
  have d: "retry_delays ?h \<noteq> []" by (simp add: create_download_retry_handler_def RetryHandler_def)
  have ds: "retry_delays ?h = [30, 60, 180]"
    by (simp add: create_download_retry_handler_def RetryHandler_def)
  have r: "is_retryable_error ''Connection timeout''" by code_simp
  have s1: "?f ?h 0 = (Inl ''Connection timeout'', ?h, 1)" by (simp add: failing_callable_def)
  have s2: "?f ?h 1 = (Inl ''Connection timeout'', ?h, 2)" by (simp add: failing_callable_def)
  have s3: "?f ?h 2 = (Inl ''Connection timeout'', ?h, 3)" by (simp add: failing_callable_def)
  have s4: "?f ?h 3 = (Inl ''Connection timeout'', ?h, 4)" by (simp add: failing_callable_def)
  show ?thesis
    using retry_budget_exhausted [of ?h ?f 0 "''Connection timeout''" 1 "''Connection timeout''" 2
        "''Connection timeout''" 3 "''Connection timeout''" 4, OF m nc d s1 r s2 r s3 r s4 r]
    by (simp add: ds calls_def)
qed

text \<open>
  C4. When the first invocation raises an error whose lower-cased message contains a
  pattern of the non-retryable list, \<open>execute_with_retry\<close> raises that error after this
  single invocation, whatever the retry budget and whatever else the message contains
  (the witness message also contains the retryable pattern \<open>connection\<close>).
\<close>

theorem fatal_error_short_circuits:
  assumes "\<not> is_cancelled h" and "0 \<le> max_retries h"
    and "func h w = (Inl e, h', w')"
    and "p \<in> set non_retryable_patterns" and "str_in p (lower e)"
  shows "execute_with_retry func h w = (Raised e, h', w', [Call_raised e])"
proof -
  have nr: "\<not> is_retryable_error e"
    using list_ex_str_in [OF assms(4) assms(5)] by (simp add: is_retryable_error_def)
  have tb: "try_body func 0 None h w = (Inl e, h', w', [Call_raised e])"
    using assms(3) by (simp add: try_body_def)
  show ?thesis
    using assms(1) nr tb by (simp add: execute_with_retry_def range_py_Suc [OF assms(2)])
qed

theorem fatal_error_short_circuits_witness:
  "execute_with_retry (failing_callable ''ERROR: Private video. Connection timeout'')
       (create_download_retry_handler 3 None) 0
     = (Raised ''ERROR: Private video. Connection timeout'', create_download_retry_handler 3 None, 1,
        [Call_raised ''ERROR: Private video. Connection timeout''])
   \<and> str_in ''connection'' (lower ''ERROR: Private video. Connection timeout'')"
proof -
  let ?e = "''ERROR: Private video. Connection timeout''"
  let ?h = "create_download_retry_handler 3 None"
  have a: "\<not> is_cancelled ?h" by (simp add: create_download_retry_handler_def RetryHandler_def)
  have b: "0 \<le> max_retries ?h" by (simp add: create_download_retry_handler_def RetryHandler_def)
  have c: "failing_callable ?e ?h 0 = (Inl ?e, ?h, 1)" by (simp add: failing_callable_def)
  have d: "''private video'' \<in> set non_retryable_patterns" by (simp add: non_retryable_patterns_def)
  have e: "str_in ''private video'' (lower ?e)" by code_simp
  have f: "str_in ''connection'' (lower ?e)" by code_simp
  show ?thesis
    using fatal_error_short_circuits [of ?h "failing_callable ?e" 0 ?e ?h 1 "''private video''", OF a b c d e] f
    by simp
qed

text \<open>
  C5. A handler whose flag is set raises "Retry cancelled by user" without invoking the
  callable; the test stands at the top of every iteration of the loop, before the
  sleep and before the invocation, so the trace is left as it was.
\<close>

theorem cancelled_before_attempt:
  assumes "is_cancelled h"
  shows "(0 \<le> max_retries h \<longrightarrow>
            execute_with_retry func h w = (Raised ''Retry cancelled by user'', h, w, []))
       \<and> retry_loop func (attempt # rest) last_exception h w tr
            = (Raised ''Retry cancelled by user'', h, w, tr)"
  using assms by (simp add: execute_with_retry_def range_py_Cons)

theorem cancelled_before_attempt_witness:
  "execute_with_retry (failing_callable ''boom'') (cancel (create_download_retry_handler 3 None)) 0
     = (Raised ''Retry cancelled by user'', cancel (create_download_retry_handler 3 None), 0, [])
   \<and> retry_loop (failing_callable ''boom'') [2, 3] (Some ''timeout'')
         (cancel (create_download_retry_handler 3 None)) 0 [Call_raised ''timeout'']
     = (Raised ''Retry cancelled by user'', cancel (create_download_retry_handler 3 None), 0,
        [Call_raised ''timeout''])"
proof -
  let ?h = "cancel (create_download_retry_handler 3 None)"
  have a: "is_cancelled ?h" by (simp add: cancel_def)
  have b: "0 \<le> max_retries ?h"
    by (simp add: cancel_def create_download_retry_handler_def RetryHandler_def)
  show ?thesis
    using a b cancelled_before_attempt [of ?h "failing_callable ''boom''" 0 2 "[3]" "Some ''timeout''"
        "[Call_raised ''timeout'']"]
    by simp
qed

section \<open>Properties of the queue\<close>

lemma ins_take: "b \<le> length p \<Longrightarrow> take b (take b p @ x # drop b p) = take b p"
  by simp

lemma ins_drop: "b \<le> length p \<Longrightarrow> drop (Suc b) (take b p @ x # drop b p) = drop b p"
  by simp

lemma ins_nth: "b \<le> length p \<Longrightarrow> k \<le> length p \<Longrightarrow>
  (take b p @ x # drop b p) ! k = (if k < b then p ! k else if k = b then x else p ! (k - 1))"
  by (auto simp: nth_append nth_Cons split: nat.splits intro!: arg_cong [where f = "(!) p"])

lemma popped_length: "a < length xs \<Longrightarrow> length (take a xs @ drop (Suc a) xs) = length xs - 1"
  by auto

lemma popped_nth: "a < length xs \<Longrightarrow> k < length xs - 1 \<Longrightarrow>
   (take a xs @ drop (Suc a) xs) ! k = (if k < a then xs ! k else xs ! Suc k)"
  by (auto simp: nth_append min_def)

lemma move_list_length: "a < length xs \<Longrightarrow> b < length xs \<Longrightarrow> length (move_list xs a b) = length xs"
  by (auto simp: move_list_def Let_def)

lemma move_list_rest:
  assumes "a < length xs" "b < length xs"
  shows "take b (move_list xs a b) @ drop (Suc b) (move_list xs a b) = take a xs @ drop (Suc a) xs"
proof -
  define p where "p = take a xs @ drop (Suc a) xs"
  have lp: "b \<le> length p" using assms by (simp add: p_def)
  have m: "move_list xs a b = take b p @ (xs ! a) # drop b p" by (simp add: move_list_def p_def)
  show ?thesis
    unfolding m ins_take [OF lp] ins_drop [OF lp] p_def [symmetric] by simp
qed

lemma move_list_nth:
  assumes "a < length xs" "b < length xs"
  shows "move_list xs a b ! b = xs ! a"
proof -
  define p where "p = take a xs @ drop (Suc a) xs"
  have lp: "b \<le> length p" using assms by (simp add: p_def)
  have m: "move_list xs a b = take b p @ (xs ! a) # drop b p" by (simp add: move_list_def p_def)
  show ?thesis
    unfolding m by (simp add: ins_nth [OF lp lp])
qed

lemma move_list_track:
  assumes "a < length xs" "b < length xs" "c < length xs"
  shows "move_list xs a b ! (if c = a then b else if a < c \<and> c \<le> b then c - 1 else if b \<le> c \<and> c < a then c + 1 else c) = xs ! c"
proof -
  define p where "p = take a xs @ drop (Suc a) xs"
  have len: "length p = length xs - 1" using assms by (simp add: p_def)
  have lp: "b \<le> length p" using assms len by simp
  have m: "move_list xs a b = take b p @ (xs ! a) # drop b p" by (simp add: move_list_def p_def)
  have pn: "\<And>k. k < length xs - 1 \<Longrightarrow> p ! k = (if k < a then xs ! k else xs ! Suc k)"
    unfolding p_def using assms(1) by (rule popped_nth)
  have n: "\<And>k. k < length xs \<Longrightarrow> move_list xs a b ! k = (if k < b then p ! k else if k = b then xs ! a else p ! (k - 1))"
    unfolding m using lp len by (intro ins_nth) auto
  show ?thesis
    using assms by (auto simp: n pn)
qed


lemma move_in_queue_same: "move_in_queue s i i = (s, i \<ge> 0 \<and> i < int (length (batch_queue s)), [])"
  by (simp add: move_in_queue_def)

lemma move_in_queue_other:
  assumes "0 \<le> i" "i < int (length (batch_queue s))" "0 \<le> j" "j < int (length (batch_queue s))" "i \<noteq> j"
  shows "move_in_queue s i j =
           (s\<lparr>batch_queue := move_list (batch_queue s) (nat i) (nat j),
              current_batch_index :=
                (let cur = current_batch_index s in
                 if cur = i then j
                 else if i < cur \<and> cur \<le> j then cur - 1
                 else if j \<le> cur \<and> cur < i then cur + 1
                 else cur)\<rparr>, True, [Queue_updated])"
  using assms by (simp add: move_in_queue_def move_list_def Let_def)

text \<open>
  C9. For in-range indices \<open>move_in_queue\<close> returns \<open>True\<close>; the cursor becomes
  \<open>to_index\<close> when it was \<open>from_index\<close>, goes down by one when
  \<open>from_index < cursor \<le> to_index\<close>, goes up by one when
  \<open>to_index \<le> cursor < from_index\<close>, and is unchanged otherwise. The queue keeps its
  length, the moved item stands at \<open>to_index\<close>, the other items keep their order, and
  a cursor inside the queue still points at the item it pointed at. The witness is
  \<open>[A, B, C, D]\<close> with the cursor at 2: moving 0 to 3 gives the cursor 1.
\<close>

theorem move_adjusts_cursor:
  assumes "0 \<le> i" "i < int (length (batch_queue s))" "0 \<le> j" "j < int (length (batch_queue s))"
  shows "fst (snd (move_in_queue s i j))
       \<and> current_batch_index (fst (move_in_queue s i j)) =
           (let cur = current_batch_index s in
            if cur = i then j
            else if i < cur \<and> cur \<le> j then cur - 1
            else if j \<le> cur \<and> cur < i then cur + 1
            else cur)
       \<and> length (batch_queue (fst (move_in_queue s i j))) = length (batch_queue s)
       \<and> batch_queue (fst (move_in_queue s i j)) ! nat j = batch_queue s ! nat i
       \<and> take (nat j) (batch_queue (fst (move_in_queue s i j))) @
           drop (Suc (nat j)) (batch_queue (fst (move_in_queue s i j)))
         = take (nat i) (batch_queue s) @ drop (Suc (nat i)) (batch_queue s)
       \<and> (0 \<le> current_batch_index s \<and> current_batch_index s < int (length (batch_queue s)) \<longrightarrow>
            batch_queue (fst (move_in_queue s i j)) ! nat (current_batch_index (fst (move_in_queue s i j)))
              = batch_queue s ! nat (current_batch_index s))"
proof (cases "i = j")
  case True
  then show ?thesis using assms by (auto simp: move_in_queue_same Let_def)
next
  case False
  let ?xs = "batch_queue s"
  let ?c = "current_batch_index s"
  have a: "nat i < length ?xs" and b: "nat j < length ?xs" using assms by auto
  note r = move_in_queue_other [OF assms False]
  have track: "0 \<le> ?c \<Longrightarrow> ?c < int (length ?xs) \<Longrightarrow>
      move_list ?xs (nat i) (nat j) !
        nat (if ?c = i then j else if i < ?c \<and> ?c \<le> j then ?c - 1
             else if j \<le> ?c \<and> ?c < i then ?c + 1 else ?c) = ?xs ! nat ?c"
  proof -
    assume c0: "0 \<le> ?c" and c1: "?c < int (length ?xs)"
    have c: "nat ?c < length ?xs" using c0 c1 by auto
    have e: "nat (if ?c = i then j else if i < ?c \<and> ?c \<le> j then ?c - 1
               else if j \<le> ?c \<and> ?c < i then ?c + 1 else ?c)
          = (if nat ?c = nat i then nat j else if nat i < nat ?c \<and> nat ?c \<le> nat j then nat ?c - 1
             else if nat j \<le> nat ?c \<and> nat ?c < nat i then nat ?c + 1 else nat ?c)"
      using assms c0 by auto
    show ?thesis unfolding e by (rule move_list_track [OF a b c])
  qed
  show ?thesis
    using track by (simp add: r Let_def move_list_length [OF a b] move_list_nth [OF a b] move_list_rest [OF a b])
qed

theorem move_adjusts_cursor_witness:
  "current_batch_index (fst (move_in_queue abcd 0 3)) = 1
   \<and> batch_queue (fst (move_in_queue abcd 0 3)) = [''B'', ''C'', ''D'', ''A'']
   \<and> batch_queue (fst (move_in_queue abcd 0 3)) ! 1 = ''C''"
proof -
  have q: "batch_queue abcd = [''A'', ''B'', ''C'', ''D'']" and c: "current_batch_index abcd = 2"
    by (simp_all add: abcd_def)
  have h: "(0::int) \<le> 0" "0 < int (length (batch_queue abcd))" "(0::int) \<le> 3" "3 < int (length (batch_queue abcd))"
    by (simp_all add: q)
  have e: "batch_queue (fst (move_in_queue abcd 0 3)) = [''B'', ''C'', ''D'', ''A'']"
    by (simp add: move_in_queue_def q c Let_def)
  show ?thesis
    using move_adjusts_cursor [OF h] e by (simp add: q c)
qed

lemma strip_Nil: "strip [] = []"
  by (simp add: strip_def)

lemma add_to_batch_full:
  "int (length (batch_queue s)) \<ge> l \<Longrightarrow> strip u \<noteq> [] \<Longrightarrow>
   add_to_batch isp s u (Some l) = (s, False, [Queue_limit_reached (int (length (batch_queue s)))])"
  by (auto simp: add_to_batch_def Let_def strip_Nil)

lemma add_to_batch_append:
  "int (length (batch_queue s)) < l \<Longrightarrow> strip u \<noteq> [] \<Longrightarrow> \<not> isp (strip u) \<Longrightarrow>
   strip u \<notin> set (batch_queue s) \<Longrightarrow>
   add_to_batch isp s u (Some l) =
     (s\<lparr>batch_queue := batch_queue s @ [strip u]\<rparr>, True,
      [Queue_updated] @
      (if int (length (batch_queue s)) + 1 \<ge> warning_threshold l
       then [Queue_limit_warning (int (length (batch_queue s)) + 1) l] else []))"
  by (auto simp: add_to_batch_def Let_def strip_Nil)

lemma remove_from_queue_queue:
  "0 \<le> i \<Longrightarrow> i < int (length (batch_queue s)) \<Longrightarrow>
   batch_queue (fst (remove_from_queue s i)) = take (nat i) (batch_queue s) @ drop (Suc (nat i)) (batch_queue s)"
  by (simp add: remove_from_queue_def Let_def)

lemma five_queue:
  "batch_queue (batch_of 5 [''https://youtu.be/v1'', ''https://youtu.be/v2'', ''https://youtu.be/v3'',
                            ''https://youtu.be/v4'', ''https://youtu.be/v5''])
     = [''https://youtu.be/v1'', ''https://youtu.be/v2'', ''https://youtu.be/v3'',
        ''https://youtu.be/v4'', ''https://youtu.be/v5'']"
  by code_simp

lemma three_queue:
  "batch_queue (batch_of 5 [''https://youtu.be/v1'', ''https://youtu.be/v2'', ''https://youtu.be/v3''])
     = [''https://youtu.be/v1'', ''https://youtu.be/v2'', ''https://youtu.be/v3'']"
  by code_simp

lemma v6_plain:
  "strip ''https://youtu.be/v6'' = ''https://youtu.be/v6''"
  "\<not> stub_is_playlist_url ''https://youtu.be/v6''"
  by code_simp+

text \<open>
  C7. For a non-blank URL and a limit \<open>l\<close>: when the queue holds \<open>l\<close> items or
  more, \<open>add_to_batch\<close> returns \<open>False\<close>, emits \<open>queue_limit_reached\<close> with the
  current size and leaves the manager as it was. When the queue holds fewer than \<open>l\<close>
  items, a plain (non-playlist) URL that is not yet queued is appended and the result is
  \<open>True\<close>. Hence after \<open>remove_from_queue\<close> of one item of a queue of exactly \<open>l\<close>
  items, adding a URL that is not in the remaining queue succeeds.
\<close>

theorem capacity_admission:
  assumes "strip u \<noteq> []" and "\<not> isp (strip u)"
  shows "(int (length (batch_queue s)) \<ge> l \<longrightarrow>
            add_to_batch isp s u (Some l)
              = (s, False, [Queue_limit_reached (int (length (batch_queue s)))]))
       \<and> (int (length (batch_queue s)) < l \<and> strip u \<notin> set (batch_queue s) \<longrightarrow>
            fst (snd (add_to_batch isp s u (Some l)))
          \<and> fst (add_to_batch isp s u (Some l)) = s\<lparr>batch_queue := batch_queue s @ [strip u]\<rparr>)
       \<and> (int (length (batch_queue s)) = l \<and> 0 \<le> i \<and> i < l
          \<and> strip u \<notin> set (batch_queue (fst (remove_from_queue s i))) \<longrightarrow>
            fst (snd (add_to_batch isp (fst (remove_from_queue s i)) u (Some l)))
          \<and> batch_queue (fst (add_to_batch isp (fst (remove_from_queue s i)) u (Some l)))
              = take (nat i) (batch_queue s) @ drop (Suc (nat i)) (batch_queue s) @ [strip u])"
proof (intro conjI impI)
  assume "l \<le> int (length (batch_queue s))"
  then show "add_to_batch isp s u (Some l) = (s, False, [Queue_limit_reached (int (length (batch_queue s)))])"
    using assms(1) by (rule add_to_batch_full)
next
  assume a: "int (length (batch_queue s)) < l \<and> strip u \<notin> set (batch_queue s)"
  note r = add_to_batch_append [where isp = isp and s = s and u = u and l = l, OF conjunct1 [OF a] assms conjunct2 [OF a]]
  show "fst (snd (add_to_batch isp s u (Some l)))" by (simp add: r)
  show "fst (add_to_batch isp s u (Some l)) = s\<lparr>batch_queue := batch_queue s @ [strip u]\<rparr>"
    by (simp add: r)
next
  assume a: "int (length (batch_queue s)) = l \<and> 0 \<le> i \<and> i < l
     \<and> strip u \<notin> set (batch_queue (fst (remove_from_queue s i)))"
  let ?s = "fst (remove_from_queue s i)"
  have i: "0 \<le> i" "i < int (length (batch_queue s))" using a by auto
  have q: "batch_queue ?s = take (nat i) (batch_queue s) @ drop (Suc (nat i)) (batch_queue s)"
    by (rule remove_from_queue_queue [OF i])
  have len: "int (length (batch_queue ?s)) < l" unfolding q using a by auto
  have nin: "strip u \<notin> set (batch_queue ?s)" using a by simp
  note r = add_to_batch_append [where isp = isp and s = "?s" and u = u and l = l, OF len assms nin]
  show "fst (snd (add_to_batch isp ?s u (Some l)))" by (simp add: r)
  show "batch_queue (fst (add_to_batch isp ?s u (Some l)))
          = take (nat i) (batch_queue s) @ drop (Suc (nat i)) (batch_queue s) @ [strip u]"
    by (simp add: r q)
qed

theorem capacity_admission_witness:
  "add_to_batch stub_is_playlist_url
       (batch_of 5 [''https://youtu.be/v1'', ''https://youtu.be/v2'', ''https://youtu.be/v3'',
                    ''https://youtu.be/v4'', ''https://youtu.be/v5''])
       ''https://youtu.be/v6'' (Some 5)
     = (batch_of 5 [''https://youtu.be/v1'', ''https://youtu.be/v2'', ''https://youtu.be/v3'',
                    ''https://youtu.be/v4'', ''https://youtu.be/v5''], False, [Queue_limit_reached 5])
   \<and> fst (snd (add_to_batch stub_is_playlist_url
         (fst (remove_from_queue
            (batch_of 5 [''https://youtu.be/v1'', ''https://youtu.be/v2'', ''https://youtu.be/v3'',
                         ''https://youtu.be/v4'', ''https://youtu.be/v5'']) 0))
         ''https://youtu.be/v6'' (Some 5)))
   \<and> batch_queue (fst (add_to_batch stub_is_playlist_url
         (fst (remove_from_queue
            (batch_of 5 [''https://youtu.be/v1'', ''https://youtu.be/v2'', ''https://youtu.be/v3'',
                         ''https://youtu.be/v4'', ''https://youtu.be/v5'']) 0))
         ''https://youtu.be/v6'' (Some 5)))
     = [''https://youtu.be/v2'', ''https://youtu.be/v3'', ''https://youtu.be/v4'',
        ''https://youtu.be/v5'', ''https://youtu.be/v6'']"
proof -
  let ?s = "batch_of 5 [''https://youtu.be/v1'', ''https://youtu.be/v2'', ''https://youtu.be/v3'',
                        ''https://youtu.be/v4'', ''https://youtu.be/v5'']"
  let ?u = "''https://youtu.be/v6''"
  have a: "strip ?u \<noteq> []" by (simp add: v6_plain)
  have b: "\<not> stub_is_playlist_url (strip ?u)" by (simp add: v6_plain)
  have r: "batch_queue (fst (remove_from_queue ?s 0))
             = [''https://youtu.be/v2'', ''https://youtu.be/v3'', ''https://youtu.be/v4'', ''https://youtu.be/v5'']"
    by (simp add: remove_from_queue_queue five_queue)
  show ?thesis
    using capacity_admission [of ?u stub_is_playlist_url 5 ?s 0, OF a b] by (simp add: five_queue v6_plain r)
qed

text \<open>
  C8, as the code has it. \<open>add_to_batch\<close> with limit \<open>l\<close> emits
  \<open>queue_limit_warning(size, l)\<close> exactly when it appends a URL and the new size is at
  least \<open>int(l * 0.8)\<close>: on every such append, not once per crossing. A rejected URL
  and a playlist URL emit no warning.
\<close>

theorem limit_warning_on_every_append_at_threshold:
  "Queue_limit_warning n m \<in> set (snd (snd (add_to_batch isp s u (Some l))))
     \<longleftrightarrow> (batch_queue (fst (add_to_batch isp s u (Some l))) = batch_queue s @ [strip u]
          \<and> n = int (length (batch_queue s)) + 1 \<and> m = l \<and> warning_threshold l \<le> n)"
  by (auto simp: add_to_batch_def handle_playlist_url_def Let_def)

theorem limit_warning_on_every_append_at_threshold_witness:
  "Queue_limit_warning 4 5 \<in> set (snd (snd (add_to_batch stub_is_playlist_url
       (batch_of 5 [''https://youtu.be/v1'', ''https://youtu.be/v2'', ''https://youtu.be/v3''])
       ''https://youtu.be/v6'' (Some 5))))"
proof -
  let ?s = "batch_of 5 [''https://youtu.be/v1'', ''https://youtu.be/v2'', ''https://youtu.be/v3'']"
  have q: "batch_queue (fst (add_to_batch stub_is_playlist_url ?s ''https://youtu.be/v6'' (Some 5)))
             = batch_queue ?s @ [strip ''https://youtu.be/v6'']"
    by (simp add: add_to_batch_def Let_def three_queue v6_plain)
  have t: "warning_threshold 5 \<le> 4" by (simp add: warning_threshold_def)
  show ?thesis
    using limit_warning_on_every_append_at_threshold
            [of 4 5 stub_is_playlist_url ?s "''https://youtu.be/v6''" 5] q t
    by (simp add: three_queue)
qed

text \<open>
  Two appends in a row, to a queue of three items with limit 5: the first brings the
  queue to 4 items (80 percent) and emits the warning, the second brings it to 5 and
  emits the warning again, although the queue never dropped below 80 percent in between.
\<close>

theorem limit_warning_repeats_above_threshold:
  "snd (snd (add_to_batch stub_is_playlist_url
       (batch_of 5 [''https://youtu.be/v1'', ''https://youtu.be/v2'', ''https://youtu.be/v3''])
       ''https://youtu.be/v4'' (Some 5)))
     = [Queue_updated, Queue_limit_warning 4 5]
   \<and> snd (snd (add_to_batch stub_is_playlist_url
       (fst (add_to_batch stub_is_playlist_url
          (batch_of 5 [''https://youtu.be/v1'', ''https://youtu.be/v2'', ''https://youtu.be/v3''])
          ''https://youtu.be/v4'' (Some 5)))
       ''https://youtu.be/v5'' (Some 5)))
     = [Queue_updated, Queue_limit_warning 5 5]"
  by code_simp

text \<open>
  The methods of the manager that act at once on the queue keep the cursor between 0
  and the length of the queue, and under this invariant \<open>is_batch_complete\<close> holds
  exactly when the cursor equals the length.
\<close>

lemma inv_add_to_batch: "queue_inv s \<Longrightarrow> queue_inv (fst (add_to_batch isp s u lim))"
  by (auto simp: queue_inv_def add_to_batch_def handle_playlist_url_def Let_def split: option.splits)

lemma inv_get_next_batch_item: "queue_inv s \<Longrightarrow> queue_inv (fst (get_next_batch_item rp s))"
  by (auto simp: queue_inv_def get_next_batch_item_def build_batch_item_data_def Let_def
      split: option.splits)

lemma inv_remove_from_queue: "queue_inv s \<Longrightarrow> queue_inv (fst (remove_from_queue s i))"
  by (auto simp: queue_inv_def remove_from_queue_def Let_def)

lemma inv_move_in_queue: "queue_inv s \<Longrightarrow> queue_inv (fst (move_in_queue s i j))"
  by (auto simp: queue_inv_def move_in_queue_def Let_def)

lemma inv_trim_queue_to_limit: "queue_inv s \<Longrightarrow> queue_inv (fst (trim_queue_to_limit s lim))"
  by (auto simp: queue_inv_def trim_queue_to_limit_def Let_def split: option.splits)

lemma inv_enforce_playlist_limit: "queue_inv s \<Longrightarrow> queue_inv (fst (enforce_playlist_limit s lim))"
  by (auto simp: queue_inv_def enforce_playlist_limit_def trim_queue_to_limit_def Let_def split: option.splits)

lemma inv_clear_batch_queue: "queue_inv (fst (clear_batch_queue s))"
  by (simp add: queue_inv_def clear_batch_queue_def)

lemma complete_iff: "queue_inv s \<Longrightarrow> is_batch_complete s \<longleftrightarrow> current_batch_index s = int (length (batch_queue s))"
  by (auto simp: queue_inv_def is_batch_complete_def)


lemma queue_methods_preserve_invariant:
  assumes "queue_inv s"
  shows "queue_inv (fst (add_to_batch isp s u lim))"
    and "queue_inv (fst (get_next_batch_item rp s))"
    and "queue_inv (fst (remove_from_queue s i))"
    and "queue_inv (fst (move_in_queue s i j))"
    and "queue_inv (fst (trim_queue_to_limit s lim))"
    and "queue_inv (fst (enforce_playlist_limit s lim))"
    and "queue_inv (fst (clear_batch_queue s))"
    and "is_batch_complete s \<longleftrightarrow> current_batch_index s = int (length (batch_queue s))"
  using assms
  by (simp_all add: inv_add_to_batch inv_get_next_batch_item inv_remove_from_queue inv_move_in_queue
      inv_trim_queue_to_limit inv_enforce_playlist_limit inv_clear_batch_queue complete_iff)

text \<open>
  C10. The playlist branch of enqueueing, \<open>on_playlist_info_extracted\<close>, replaces the
  queue and keeps the cursor when batch mode is already on. With three URLs queued and
  two of them dispatched (cursor 2), a playlist of one video leaves a queue of one
  placeholder with the cursor still at 2: the invariant \<open>cursor \<le> len(items)\<close> is
  broken, and \<open>is_batch_complete\<close> holds although the cursor is not the length.
\<close>

theorem playlist_enqueue_breaks_cursor_invariant:
  "queue_inv two_dispatched
   \<and> \<not> queue_inv (fst (on_playlist_info_extracted two_dispatched one_entry (Some 10)))
   \<and> is_batch_complete (fst (on_playlist_info_extracted two_dispatched one_entry (Some 10)))
   \<and> current_batch_index (fst (on_playlist_info_extracted two_dispatched one_entry (Some 10))) = 2
   \<and> batch_queue (fst (on_playlist_info_extracted two_dispatched one_entry (Some 10))) = [''PLAYLIST_ITEM_1'']"
  by code_simp

theorem playlist_enqueue_breaks_cursor_invariant_witness:
  "\<not> queue_inv (fst (on_playlist_info_extracted two_dispatched one_entry (Some 10)))"
  using playlist_enqueue_breaks_cursor_invariant by simp

text \<open>
  C1. A playlist of ten entries accepted with limit 4 by a new manager: the queue holds
  the four placeholders \<open>PLAYLIST_ITEM_1 \<dots> PLAYLIST_ITEM_4\<close>, in order. Four
  successive calls of \<open>get_next_batch_item\<close> yield the URLs built from the entries 1,
  2, 3, 4 of the playlist (with the position hints 2 to 5), not from the entries 0, 1,
  2, 3: the number of a placeholder counts from one and is used as an index that counts
  from zero.
\<close>

theorem playlist_dequeue_skips_first_entry:
  "batch_queue (fst (on_playlist_info_extracted BatchModeManager ten_entries (Some 4)))
      = [''PLAYLIST_ITEM_1'', ''PLAYLIST_ITEM_2'', ''PLAYLIST_ITEM_3'', ''PLAYLIST_ITEM_4'']
   \<and> map (map_sum id (map_option url))
         (dequeue_n (\<lambda>s p. p) 4 (fst (on_playlist_info_extracted BatchModeManager ten_entries (Some 4))))
      = [Inr (Some ''https://www.youtube.com/watch?v=e1&list=PL1&index=2''),
         Inr (Some ''https://www.youtube.com/watch?v=e2&list=PL1&index=3''),
         Inr (Some ''https://www.youtube.com/watch?v=e3&list=PL1&index=4''),
         Inr (Some ''https://www.youtube.com/watch?v=e4&list=PL1&index=5'')]
   \<and> take 4 (pl_entries ten_entries)
      = [''https://www.youtube.com/watch?v=e0'', ''https://www.youtube.com/watch?v=e1'',
         ''https://www.youtube.com/watch?v=e2'', ''https://www.youtube.com/watch?v=e3'']"
  by code_simp

theorem playlist_dequeue_skips_first_entry_witness:
  "hd (map (map_sum id (map_option url))
         (dequeue_n (\<lambda>s p. p) 4 (fst (on_playlist_info_extracted BatchModeManager ten_entries (Some 4)))))
      = Inr (Some ''https://www.youtube.com/watch?v=e1&list=PL1&index=2'')"
  using playlist_dequeue_skips_first_entry by simp

section \<open>Properties of the batch pump\<close>

text \<open>
  More fuel does not change the result of a run that has ended.
\<close>

lemma pump_more_fuel:
  "pump n env q c w tr = Some r \<Longrightarrow> pump (n + k) env q c w tr = Some r"
proof (induction n env q c w tr rule: pump.induct)
  case (1 n env c w tr)
  then show ?case by simp
next
  case (2 env q qs c w tr)
  then show ?case by simp
next
  case (3 n env q qs c w tr)
  then show ?case
    by (cases "deliver env q c w") (auto split: prod.splits)
qed

lemma run_batch_more_fuel:
  "run_batch n env c w = Some r \<Longrightarrow> run_batch (n + k) env c w = Some r"
  by (auto simp: run_batch_def pump_more_fuel split: sum.splits prod.splits)

text \<open>
  C2, as the code has it. In the end-to-end scenario the run ends (six deliveries of
  the event loop are enough); the download is invoked once for the first URL, twice for
  the second and once for the third; the first batch summary, computed when the failure
  of the third download is counted, reports 2 successful and 1 failed of 3; completing
  the batch clears the queue and resets both counters, so in the final state the batch
  is complete, the queue is empty and both counters are 0.
\<close>

theorem batch_scenario_summary:
  "(case run_batch 6 scenario_env scenario_controller [] of
      Some (Inr (c, w, tr)) \<Rightarrow>
        invocations tr = [(''https://youtu.be/v1'', 1), (''https://youtu.be/v2'', 2),
                          (''https://youtu.be/v3'', 1)]
      \<and> hd (summaries tr) = \<lparr>total = 3, successful = 2, failed = 1, playlist = None\<rparr>
      \<and> is_batch_complete (batch_manager c)
      \<and> batch_queue (batch_manager c) = []
      \<and> successful_downloads (batch_manager c) = 0
      \<and> failed_downloads (batch_manager c) = 0
    | _ \<Rightarrow> False)"
  by code_simp

theorem batch_scenario_summary_witness:
  "\<exists>c w tr. run_batch 6 scenario_env scenario_controller [] = Some (Inr (c, w, tr))
     \<and> invocations tr = [(''https://youtu.be/v1'', 1), (''https://youtu.be/v2'', 2),
                          (''https://youtu.be/v3'', 1)]
     \<and> hd (summaries tr) = \<lparr>total = 3, successful = 2, failed = 1, playlist = None\<rparr>
     \<and> is_batch_complete (batch_manager c)"
  using batch_scenario_summary
  by (auto split: option.splits sum.splits prod.splits)

text \<open>
  In the final state of the scenario both counters are 0, not 2 successes and 1 failure:
  \<open>complete_batch\<close> has cleared the queue and the counters with it.
\<close>

theorem batch_scenario_final_counters:
  "(case run_batch 6 scenario_env scenario_controller [] of
      Some (Inr (c, w, tr)) \<Rightarrow>
        successful_downloads (batch_manager c) = 0
      \<and> failed_downloads (batch_manager c) = 0
      \<and> \<not> (successful_downloads (batch_manager c) = 2 \<and> failed_downloads (batch_manager c) = 1)
    | _ \<Rightarrow> False)"
  by code_simp


end
